theory Spec2Isabelle
  imports Complex_Main
begin

section \<open>Numeric model\<close>

text \<open>
  The viewport of the map renderer (\<^verbatim>\<open>core/src/view/view.cpp\<close>) computes with C++
  \<^verbatim>\<open>float\<close> and \<^verbatim>\<open>double\<close>. Four readings of that arithmetic are used, each where
  it is faithful.
  \<^item> Finite values as \<^typ>\<open>real\<close> with exact arithmetic: for statements that name the
    formula a field is computed by or the fields a function touches, and for the tiles of
    concrete camera states whose edges lie thousands of metres from every tile boundary,
    so that no comparison of the walk is decided by rounding.
  \<^item> Binary32 rounding \<open>f32\<close> (round to nearest, ties to even, normal range) after every
    operation: for the value \<^verbatim>\<open>glm::mod\<close> stores, which rounding decides.
  \<^item> An arbitrary rounding function as a parameter of the loops of the tile walk: what
    is proved of them holds however the additions and products round.
  \<^item> IEEE values with signed zero, infinities and NaN: for the label projection, which
    divides by a component that may be zero.
  C++ \<^verbatim>\<open>int\<close> is embedded as \<^typ>\<open>int\<close>; a float-to-int conversion whose value does
  not fit an \<^verbatim>\<open>int\<close> is undefined behaviour and outside the model.
\<close>

text \<open>The conversion \<^verbatim>\<open>(int) r\<close> of a floating-point value: truncation toward zero.\<close>

definition to_int :: "real \<Rightarrow> int" where
  "to_int r = (if 0 \<le> r then \<lfloor>r\<rfloor> else \<lceil>r\<rceil>)"

text \<open>\<^verbatim>\<open>glm::clamp(x, minVal, maxVal)\<close> is \<^verbatim>\<open>min(max(x, minVal), maxVal)\<close>.\<close>

definition glm_clamp :: "real \<Rightarrow> real \<Rightarrow> real \<Rightarrow> real" where
  "glm_clamp x minVal maxVal = min (max x minVal) maxVal"

text \<open>
  \<^verbatim>\<open>glm::mod(x, y)\<close> is \<^verbatim>\<open>x - y * floor(x / y)\<close>; this is its exact reading, and
  \<open>glm_mod_f32\<close> below the one that rounds.
\<close>

definition glm_mod :: "real \<Rightarrow> real \<Rightarrow> real" where
  "glm_mod x y = x - y * real_of_int \<lfloor>x / y\<rfloor>"

text \<open>The constant \<^verbatim>\<open>TWO_PI\<close>.\<close>

definition TWO_PI :: real where
  "TWO_PI = 2 * pi"

text \<open>Rounding to the nearest integer, ties to the even one.\<close>

definition rne :: "real \<Rightarrow> int" where
  "rne x = (let f = \<lfloor>x\<rfloor>; d = x - real_of_int f
            in if d < 1 / 2 then f else if 1 / 2 < d then f + 1
               else if even f then f else f + 1)"

text \<open>
  Rounding to binary32: a value between \<open>2 ^ k\<close> and \<open>2 ^ (k + 1)\<close> is rounded to the nearest
  multiple of \<open>2 ^ (k - 23)\<close>, ties to the even multiple. Overflow and subnormal values are not modelled.
\<close>

definition f32 :: "real \<Rightarrow> real" where
  "f32 r = (if r = 0 then 0
            else (let e = \<lfloor>log 2 \<bar>r\<bar>\<rfloor> - 23
                  in real_of_int (rne (r / 2 powr real_of_int e)) * 2 powr real_of_int e))"

text \<open>
  \<^verbatim>\<open>(float)TWO_PI\<close>, the binary32 value nearest to \<open>2\<pi>\<close>: 6.2831854820251465, which
  is above \<open>2\<pi>\<close>.
\<close>

definition TWO_PI_f32 :: real where
  "TWO_PI_f32 = 13176795 / 2097152"

text \<open>
  \<^verbatim>\<open>glm::mod(x, y)\<close> on \<^verbatim>\<open>float\<close>: the quotient, the product and the difference are
  each rounded; the floor of a binary32 value is a binary32 value.
\<close>

definition glm_mod_f32 :: "real \<Rightarrow> real \<Rightarrow> real" where
  "glm_mod_f32 x y = f32 (x - f32 (y * real_of_int \<lfloor>f32 (x / y)\<rfloor>))"

section \<open>Vectors and matrices\<close>

text \<open>
  A \<^verbatim>\<open>glm::mat4\<close> is four columns, each a \<^verbatim>\<open>glm::vec4\<close>. The products are the usual
  ones of linear algebra: \<^verbatim>\<open>m * v\<close> is the combination of the columns of \<^verbatim>\<open>m\<close> with the
  components of \<^verbatim>\<open>v\<close>, and the columns of \<^verbatim>\<open>a * b\<close> are \<^verbatim>\<open>a\<close> times the columns of \<^verbatim>\<open>b\<close>.
\<close>

type_synonym vec2 = "real \<times> real"
type_synonym vec3 = "real \<times> real \<times> real"
type_synonym vec4 = "real \<times> real \<times> real \<times> real"
type_synonym mat4 = "vec4 \<times> vec4 \<times> vec4 \<times> vec4"

fun vec4_scale :: "vec4 \<Rightarrow> real \<Rightarrow> vec4" where
  "vec4_scale (a, b, c, d) s = (a * s, b * s, c * s, d * s)"

fun vec4_add :: "vec4 \<Rightarrow> vec4 \<Rightarrow> vec4" where
  "vec4_add (a, b, c, d) (a', b', c', d') = (a + a', b + b', c + c', d + d')"

fun mat4_mul_vec4 :: "mat4 \<Rightarrow> vec4 \<Rightarrow> vec4" where
  "mat4_mul_vec4 (c0, c1, c2, c3) (vx, vy, vz, vw) =
     vec4_add (vec4_add (vec4_scale c0 vx) (vec4_scale c1 vy))
              (vec4_add (vec4_scale c2 vz) (vec4_scale c3 vw))"

fun mat4_mul :: "mat4 \<Rightarrow> mat4 \<Rightarrow> mat4" where
  "mat4_mul a (b0, b1, b2, b3) =
     (mat4_mul_vec4 a b0, mat4_mul_vec4 a b1, mat4_mul_vec4 a b2, mat4_mul_vec4 a b3)"

section \<open>The viewport state\<close>

text \<open>
  The selector \<^verbatim>\<open>ProjectionType\<close> is an enumeration whose only recognised variant is
  \<^verbatim>\<open>mercator\<close>; any other value of the underlying integer type reaches the
  \<^verbatim>\<open>default\<close> branch of \<^verbatim>\<open>View::setMapProjection\<close>.
\<close>

datatype ProjectionType = mercator | unrecognised int

datatype MapProjection = MercatorProjection

datatype TileID = TileID int int int

text \<open>
  The fields of \<^verbatim>\<open>View\<close> that \<^verbatim>\<open>view.cpp\<close> reads and writes. \<^verbatim>\<open>m_projection\<close> is an
  owning pointer, empty until the first \<^verbatim>\<open>reset\<close>; \<^verbatim>\<open>m_pos\<close> is a vector of three
  components; \<^verbatim>\<open>m_visibleTiles\<close> is a \<^verbatim>\<open>std::set<TileID>\<close>.
\<close>

record View =
  m_projection :: "MapProjection option"
  m_vpWidth :: int
  m_vpHeight :: int
  m_aspect :: real
  m_pixelScale :: real
  m_pixelsPerTile :: real
  m_pos_x :: real
  m_pos_y :: real
  m_pos_z :: real
  m_zoom :: real
  m_roll :: real
  m_isZoomIn :: bool
  m_width :: real
  m_height :: real
  m_view :: mat4
  m_proj :: mat4
  m_viewProj :: mat4
  m_visibleTiles :: "TileID set"
  m_dirty :: bool
  m_changed :: bool

section \<open>Mutators\<close>

text \<open>The text that \<^verbatim>\<open>setMapProjection\<close> hands to \<^verbatim>\<open>logMsg\<close>.\<close>

definition projection_error_msg :: string where
  "projection_error_msg =
     ''Error: not a valid map projection specified.'' @ [CHR 0x0A] @
     '' Setting map projection to mercator by default''"

text \<open>
  \<^verbatim>\<open>View::setMapProjection\<close>. Logging is the only effect outside the object: the
  function returns the new state together with the messages passed to \<^verbatim>\<open>logMsg\<close>.
\<close>

definition setMapProjection :: "ProjectionType \<Rightarrow> View \<Rightarrow> View \<times> string list" where
  "setMapProjection projType v =
     (case projType of
        mercator \<Rightarrow>
          (v\<lparr>m_projection := Some MercatorProjection, m_dirty := True\<rparr>, [])
      | _ \<Rightarrow>
          (v\<lparr>m_projection := Some MercatorProjection, m_dirty := True\<rparr>,
           [projection_error_msg]))"

definition setPixelScale :: "real \<Rightarrow> View \<Rightarrow> View" where
  "setPixelScale pixelsPerPoint v = v\<lparr>m_pixelScale := pixelsPerPoint, m_dirty := True\<rparr>"

text \<open>
  \<^verbatim>\<open>View::setSize\<close>. A zero height makes the quotient non-finite in the source; the
  callers must not pass it, and the value of \<^verbatim>\<open>m_aspect\<close> is then outside this model.
\<close>

definition setSize :: "int \<Rightarrow> int \<Rightarrow> View \<Rightarrow> View" where
  "setSize width height v =
     v\<lparr>m_vpWidth := width, m_vpHeight := height,
       m_aspect := real_of_int width / real_of_int height, m_dirty := True\<rparr>"

definition setPosition :: "real \<Rightarrow> real \<Rightarrow> View \<Rightarrow> View" where
  "setPosition px py v = v\<lparr>m_pos_x := px, m_pos_y := py, m_dirty := True\<rparr>"

text \<open>\<^verbatim>\<open>s_maxZoom\<close> is a constant of the class declaration; it is a parameter here.\<close>

definition setZoom :: "real \<Rightarrow> real \<Rightarrow> View \<Rightarrow> View" where
  "setZoom s_maxZoom zv v = v\<lparr>m_zoom := glm_clamp zv 0 s_maxZoom, m_dirty := True\<rparr>"

definition setRoll :: "real \<Rightarrow> View \<Rightarrow> View" where
  "setRoll rv v = v\<lparr>m_roll := glm_mod rv TWO_PI, m_dirty := True\<rparr>"

text \<open>\<^verbatim>\<open>View::setRoll\<close> with the arithmetic of \<^verbatim>\<open>glm::mod\<close> rounded as binary32 rounds it.\<close>

definition setRoll_f32 :: "real \<Rightarrow> View \<Rightarrow> View" where
  "setRoll_f32 rv v = v\<lparr>m_roll := glm_mod_f32 rv TWO_PI_f32, m_dirty := True\<rparr>"

definition translate :: "real \<Rightarrow> real \<Rightarrow> View \<Rightarrow> View" where
  "translate dx dy v = setPosition (m_pos_x v + dx) (m_pos_y v + dy) v"

definition zoom :: "real \<Rightarrow> real \<Rightarrow> View \<Rightarrow> View" where
  "zoom s_maxZoom dz v =
     (let v1 = (if dz > 0 then v\<lparr>m_isZoomIn := True\<rparr> else v\<lparr>m_isZoomIn := False\<rparr>)
      in setZoom s_maxZoom (m_zoom v1 + dz) v1)"

definition roll :: "real \<Rightarrow> View \<Rightarrow> View" where
  "roll droll v = setRoll (m_roll v + droll) v"

text \<open>
  The constructor. The member initialisers of the class declaration give the state
  \<open>v0\<close> it starts from, and \<^verbatim>\<open>m_initZoom\<close> is one of them; both are parameters.
\<close>

definition View_ctor ::
    "real \<Rightarrow> real \<Rightarrow> View \<Rightarrow> int \<Rightarrow> int \<Rightarrow> ProjectionType \<Rightarrow> View \<times> string list" where
  "View_ctor s_maxZoom m_initZoom v0 width height projType =
     (let (v1, msgs) = setMapProjection projType v0;
          v2 = setSize width height v1;
          v3 = setZoom s_maxZoom m_initZoom v2;
          v4 = setPosition 0 0 v3
      in (v4\<lparr>m_changed := False, m_dirty := True\<rparr>, msgs))"

section \<open>Recomputing the derived state\<close>

text \<open>
  \<^verbatim>\<open>View::updateMatrices\<close>. \<^verbatim>\<open>MapProjection::HALF_CIRCUMFERENCE\<close> is a constant of
  the projection's declaration, and \<^verbatim>\<open>glm::lookAt\<close> and \<^verbatim>\<open>glm::perspective\<close> belong
  to the matrix library; the three are parameters.
\<close>

definition updateMatrices ::
    "real \<Rightarrow> (vec3 \<Rightarrow> vec3 \<Rightarrow> vec3 \<Rightarrow> mat4) \<Rightarrow> (real \<Rightarrow> real \<Rightarrow> real \<Rightarrow> real \<Rightarrow> mat4) \<Rightarrow>
     View \<Rightarrow> View" where
  "updateMatrices HALF_CIRCUMFERENCE lookAt perspective v =
     (let worldTileSize = 2 * HALF_CIRCUMFERENCE * 2 powr (- m_zoom v);
          screenTileSize = m_pixelsPerTile v * m_pixelScale v;
          height = real_of_int (m_vpHeight v) * worldTileSize / screenTileSize;
          width = height * m_aspect v;
          fovy = (if width > height then pi * 0.5 / m_aspect v else pi * 0.5);
          pos_z = height * 0.5 / tan (fovy * 0.5);
          near = pos_z / 50;
          up = (cos (m_roll v + pi / 2), sin (m_roll v + pi / 2), 0);
          view = lookAt (0, 0, 0) (0, 0, - 1) up;
          proj = perspective fovy (m_aspect v) near (pos_z + 1)
      in v\<lparr>m_height := height, m_width := width, m_pos_z := pos_z,
            m_view := view, m_proj := proj, m_viewProj := mat4_mul proj view\<rparr>)"

text \<open>
  The inner \<^verbatim>\<open>while\<close> of \<^verbatim>\<open>View::updateTiles\<close>: it walks one column upwards from
  the row \<open>tileY\<close>, whose lower edge is \<open>y\<close>, and inserts a tile at every step.
\<close>

function inner_loop ::
    "real \<Rightarrow> real \<Rightarrow> int \<Rightarrow> int \<Rightarrow> int \<Rightarrow> real \<times> int \<times> TileID set \<Rightarrow> real \<times> int \<times> TileID set" where
  "inner_loop tileSize vpTopEdge maxTileIndex zm tileX (y, tileY, tiles) =
     (if y < vpTopEdge \<and> tileY < maxTileIndex
      then inner_loop tileSize vpTopEdge maxTileIndex zm tileX
             (y + tileSize, tileY + 1, insert (TileID tileX tileY zm) tiles)
      else (y, tileY, tiles))"
  by pat_completeness auto
termination
  by (relation "measure (\<lambda>(tileSize, vpTopEdge, maxTileIndex, zm, tileX, y, tileY, tiles).
                   nat (maxTileIndex - tileY))") auto

text \<open>
  The outer \<^verbatim>\<open>while\<close>: one column per iteration. After the column, \<open>tileY\<close> is
  assigned \<^verbatim>\<open>(int) vpBottomEdge * invTileSize\<close>: the cast applies to \<^verbatim>\<open>vpBottomEdge\<close>
  alone, and the product is truncated again by the assignment to an \<^verbatim>\<open>int\<close>.
\<close>

function outer_loop ::
    "real \<Rightarrow> real \<Rightarrow> real \<Rightarrow> real \<Rightarrow> real \<Rightarrow> int \<Rightarrow> int \<Rightarrow>
     real \<times> int \<times> real \<times> int \<times> TileID set \<Rightarrow> TileID set" where
  "outer_loop tileSize invTileSize vpRightEdge vpTopEdge vpBottomEdge maxTileIndex zm
       (x, tileX, y, tileY, tiles) =
     (if x < vpRightEdge \<and> tileX < maxTileIndex
      then (let (y1, tileY1, tiles1) =
                   inner_loop tileSize vpTopEdge maxTileIndex zm tileX (y, tileY, tiles);
                tileY2 = to_int (real_of_int (to_int vpBottomEdge) * invTileSize);
                y2 = real_of_int tileY2 * tileSize
            in outer_loop tileSize invTileSize vpRightEdge vpTopEdge vpBottomEdge maxTileIndex zm
                 (x + tileSize, tileX + 1, y2, tileY2, tiles1))
      else tiles)"
  by pat_completeness auto
termination
  by (relation "measure (\<lambda>(tileSize, invTileSize, vpRightEdge, vpTopEdge, vpBottomEdge,
                   maxTileIndex, zm, x, tileX, y, tileY, tiles). nat (maxTileIndex - tileX))") auto

declare inner_loop.simps [simp del] outer_loop.simps [simp del]

text \<open>
  The same two loops with a rounding function \<open>rnd\<close> applied where the source computes
  in \<^verbatim>\<open>float\<close>: after \<^verbatim>\<open>y += tileSize\<close> and \<^verbatim>\<open>x += tileSize\<close>, after the conversion of
  an \<^verbatim>\<open>int\<close> to \<^verbatim>\<open>float\<close>, and after the products \<^verbatim>\<open>(int) vpBottomEdge * invTileSize\<close>
  and \<^verbatim>\<open>tileY * tileSize\<close>. Every variable of the loops is a \<^verbatim>\<open>float\<close> or an \<^verbatim>\<open>int\<close>
  local of \<^verbatim>\<open>View::updateTiles\<close>.
\<close>

function inner_loop_fp ::
    "(real \<Rightarrow> real) \<Rightarrow> real \<Rightarrow> real \<Rightarrow> int \<Rightarrow> int \<Rightarrow> int \<Rightarrow> real \<times> int \<times> TileID set \<Rightarrow>
     real \<times> int \<times> TileID set" where
  "inner_loop_fp rnd tileSize vpTopEdge maxTileIndex zm tileX (y, tileY, tiles) =
     (if y < vpTopEdge \<and> tileY < maxTileIndex
      then inner_loop_fp rnd tileSize vpTopEdge maxTileIndex zm tileX
             (rnd (y + tileSize), tileY + 1, insert (TileID tileX tileY zm) tiles)
      else (y, tileY, tiles))"
  by pat_completeness auto
termination
  by (relation "measure (\<lambda>(rnd, tileSize, vpTopEdge, maxTileIndex, zm, tileX, y, tileY, tiles).
                   nat (maxTileIndex - tileY))") auto

text \<open>The row \<^verbatim>\<open>tileY\<close> is reset to after a column: \<^verbatim>\<open>(int) vpBottomEdge * invTileSize\<close>.\<close>

definition reset_row :: "(real \<Rightarrow> real) \<Rightarrow> real \<Rightarrow> real \<Rightarrow> int" where
  "reset_row rnd vpBottomEdge invTileSize =
     to_int (rnd (rnd (real_of_int (to_int vpBottomEdge)) * invTileSize))"

function outer_loop_fp ::
    "(real \<Rightarrow> real) \<Rightarrow> real \<Rightarrow> real \<Rightarrow> real \<Rightarrow> real \<Rightarrow> real \<Rightarrow> int \<Rightarrow> int \<Rightarrow>
     real \<times> int \<times> real \<times> int \<times> TileID set \<Rightarrow> TileID set" where
  "outer_loop_fp rnd tileSize invTileSize vpRightEdge vpTopEdge vpBottomEdge maxTileIndex zm
       (x, tileX, y, tileY, tiles) =
     (if x < vpRightEdge \<and> tileX < maxTileIndex
      then (let (y1, tileY1, tiles1) =
                   inner_loop_fp rnd tileSize vpTopEdge maxTileIndex zm tileX (y, tileY, tiles);
                tileY2 = reset_row rnd vpBottomEdge invTileSize;
                y2 = rnd (rnd (real_of_int tileY2) * tileSize)
            in outer_loop_fp rnd tileSize invTileSize vpRightEdge vpTopEdge vpBottomEdge
                 maxTileIndex zm (rnd (x + tileSize), tileX + 1, y2, tileY2, tiles1))
      else tiles)"
  by pat_completeness auto
termination
  by (relation "measure (\<lambda>(rnd, tileSize, invTileSize, vpRightEdge, vpTopEdge, vpBottomEdge,
                   maxTileIndex, zm, x, tileX, y, tileY, tiles). nat (maxTileIndex - tileX))") auto

declare inner_loop_fp.simps [simp del] outer_loop_fp.simps [simp del]

text \<open>
  Lines 214 to 235 of \<^verbatim>\<open>View::updateTiles\<close>: from the locals computed before them,
  \<^verbatim>\<open>x = tileX * tileSize\<close>, \<^verbatim>\<open>y = tileY * tileSize\<close> and the two loops.
\<close>

definition tile_walk_fp ::
    "(real \<Rightarrow> real) \<Rightarrow> real \<Rightarrow> real \<Rightarrow> real \<Rightarrow> real \<Rightarrow> real \<Rightarrow> int \<Rightarrow> int \<Rightarrow> int \<Rightarrow> int \<Rightarrow>
     TileID set" where
  "tile_walk_fp rnd tileSize invTileSize vpRightEdge vpTopEdge vpBottomEdge maxTileIndex zm
       tileX tileY =
     outer_loop_fp rnd tileSize invTileSize vpRightEdge vpTopEdge vpBottomEdge maxTileIndex zm
       (rnd (rnd (real_of_int tileX) * tileSize), tileX,
        rnd (rnd (real_of_int tileY) * tileSize), tileY, {})"

text \<open>
  \<^verbatim>\<open>View::updateTiles\<close>. The third component of a \<^verbatim>\<open>TileID\<close> is an \<^verbatim>\<open>int\<close>, so
  \<^verbatim>\<open>m_zoom\<close> is truncated when the tile is built.
\<close>

definition updateTiles :: "real \<Rightarrow> View \<Rightarrow> View" where
  "updateTiles HALF_CIRCUMFERENCE v =
     (let tileSize = 2 * HALF_CIRCUMFERENCE * 2 powr (real_of_int (- to_int (m_zoom v)));
          invTileSize = 1 / tileSize;
          cos_r = cos (m_roll v);
          sin_r = sin (m_roll v);
          width = \<bar>m_height v * sin_r\<bar> + \<bar>m_width v * cos_r\<bar>;
          height = \<bar>m_width v * sin_r\<bar> + \<bar>m_height v * cos_r\<bar>;
          vpLeftEdge = m_pos_x v - width * 0.5 + HALF_CIRCUMFERENCE;
          vpRightEdge = vpLeftEdge + width;
          vpBottomEdge = - m_pos_y v - height * 0.5 + HALF_CIRCUMFERENCE;
          vpTopEdge = vpBottomEdge + height;
          tileX = to_int (max 0 (vpLeftEdge * invTileSize));
          tileY = to_int (max 0 (vpBottomEdge * invTileSize));
          x = real_of_int tileX * tileSize;
          y = real_of_int tileY * tileSize;
          maxTileIndex = to_int (2 powr (m_zoom v))
      in v\<lparr>m_visibleTiles :=
             outer_loop tileSize invTileSize vpRightEdge vpTopEdge vpBottomEdge maxTileIndex
               (to_int (m_zoom v)) (x, tileX, y, tileY, {})\<rparr>)"

text \<open>\<^verbatim>\<open>View::update\<close>.\<close>

definition update ::
    "real \<Rightarrow> (vec3 \<Rightarrow> vec3 \<Rightarrow> vec3 \<Rightarrow> mat4) \<Rightarrow> (real \<Rightarrow> real \<Rightarrow> real \<Rightarrow> real \<Rightarrow> mat4) \<Rightarrow>
     View \<Rightarrow> View" where
  "update HALF_CIRCUMFERENCE lookAt perspective v =
     (if \<not> m_dirty v then v\<lparr>m_changed := False\<rparr>
      else (updateTiles HALF_CIRCUMFERENCE
              (updateMatrices HALF_CIRCUMFERENCE lookAt perspective v))
             \<lparr>m_dirty := False, m_changed := True\<rparr>)"

text \<open>\<^verbatim>\<open>View::getBoundsRect\<close>: the four entries of the \<^verbatim>\<open>dmat2\<close> in the order given.\<close>

definition getBoundsRect :: "View \<Rightarrow> real \<times> real \<times> real \<times> real" where
  "getBoundsRect v =
     (let hw = m_width v * 0.5; hh = m_height v * 0.5
      in (m_pos_x v - hw, m_pos_y v - hh, m_pos_x v + hw, m_pos_y v + hh))"

section \<open>Labels\<close>

text \<open>
  \<^verbatim>\<open>Label::updateTransform\<close> divides by the homogeneous component \<open>w\<close>, which may be
  zero, and goes on with the quotient. Its values are therefore IEEE values: a finite
  number (\<open>Num 0\<close> is the positive zero), the negative zero, the two infinities and NaN.
  The operations follow IEEE 754 with exact results for finite operands; rounding and
  overflow are not modelled.
\<close>

datatype fval = Num real | NegZero | PInf | NInf | NaN

definition fval_of :: "fval \<Rightarrow> real" where
  "fval_of v = (case v of Num r \<Rightarrow> r | _ \<Rightarrow> 0)"

definition is_neg :: "fval \<Rightarrow> bool" where
  "is_neg v = (case v of Num r \<Rightarrow> r < 0 | NegZero \<Rightarrow> True | NInf \<Rightarrow> True | _ \<Rightarrow> False)"

definition is_inf :: "fval \<Rightarrow> bool" where
  "is_inf v = (v = PInf \<or> v = NInf)"

definition is_zero :: "fval \<Rightarrow> bool" where
  "is_zero v = (v = Num 0 \<or> v = NegZero)"

definition signed_zero :: "bool \<Rightarrow> fval" where
  "signed_zero negative = (if negative then NegZero else Num 0)"

definition signed_inf :: "bool \<Rightarrow> fval" where
  "signed_inf negative = (if negative then NInf else PInf)"

fun fadd :: "fval \<Rightarrow> fval \<Rightarrow> fval" where
  "fadd NaN _ = NaN"
| "fadd _ NaN = NaN"
| "fadd PInf NInf = NaN"
| "fadd NInf PInf = NaN"
| "fadd PInf _ = PInf"
| "fadd _ PInf = PInf"
| "fadd NInf _ = NInf"
| "fadd _ NInf = NInf"
| "fadd NegZero NegZero = NegZero"
| "fadd NegZero (Num b) = Num b"
| "fadd (Num a) NegZero = Num a"
| "fadd (Num a) (Num b) = Num (a + b)"

fun fneg :: "fval \<Rightarrow> fval" where
  "fneg (Num r) = (if r = 0 then NegZero else Num (- r))"
| "fneg NegZero = Num 0"
| "fneg PInf = NInf"
| "fneg NInf = PInf"
| "fneg NaN = NaN"

definition fsub :: "fval \<Rightarrow> fval \<Rightarrow> fval" where
  "fsub a b = fadd a (fneg b)"

definition fmul :: "fval \<Rightarrow> fval \<Rightarrow> fval" where
  "fmul a b =
     (if a = NaN \<or> b = NaN then NaN
      else if is_inf a \<or> is_inf b
        then (if is_zero a \<or> is_zero b then NaN else signed_inf (is_neg a \<noteq> is_neg b))
      else if fval_of a * fval_of b = 0 then signed_zero (is_neg a \<noteq> is_neg b)
      else Num (fval_of a * fval_of b))"

definition fdiv :: "fval \<Rightarrow> fval \<Rightarrow> fval" where
  "fdiv a b =
     (if a = NaN \<or> b = NaN then NaN
      else if is_inf a then (if is_inf b then NaN else signed_inf (is_neg a \<noteq> is_neg b))
      else if is_inf b then signed_zero (is_neg a \<noteq> is_neg b)
      else if is_zero b then (if is_zero a then NaN else signed_inf (is_neg a \<noteq> is_neg b))
      else if is_zero a then signed_zero (is_neg a \<noteq> is_neg b)
      else Num (fval_of a / fval_of b))"

text \<open>The comparisons: every comparison with NaN is false, and the two zeros are equal.\<close>

fun flt :: "fval \<Rightarrow> fval \<Rightarrow> bool" where
  "flt NaN _ = False"
| "flt _ NaN = False"
| "flt PInf _ = False"
| "flt _ NInf = False"
| "flt NInf _ = True"
| "flt _ PInf = True"
| "flt a b = (fval_of a < fval_of b)"

definition fgt :: "fval \<Rightarrow> fval \<Rightarrow> bool" where
  "fgt a b = flt b a"

definition fle :: "fval \<Rightarrow> fval \<Rightarrow> bool" where
  "fle a b = (a \<noteq> NaN \<and> b \<noteq> NaN \<and> \<not> flt b a)"

type_synonym fvec2 = "fval \<times> fval"
type_synonym fvec4 = "fval \<times> fval \<times> fval \<times> fval"
type_synonym fmat4 = "fvec4 \<times> fvec4 \<times> fvec4 \<times> fvec4"

fun fvec4_scale :: "fvec4 \<Rightarrow> fval \<Rightarrow> fvec4" where
  "fvec4_scale (a, b, c, d) s = (fmul a s, fmul b s, fmul c s, fmul d s)"

fun fvec4_add :: "fvec4 \<Rightarrow> fvec4 \<Rightarrow> fvec4" where
  "fvec4_add (a, b, c, d) (a', b', c', d') = (fadd a a', fadd b b', fadd c c', fadd d d')"

fun fmat4_mul_vec4 :: "fmat4 \<Rightarrow> fvec4 \<Rightarrow> fvec4" where
  "fmat4_mul_vec4 (c0, c1, c2, c3) (vx, vy, vz, vw) =
     fvec4_add (fvec4_add (fvec4_scale c0 vx) (fvec4_scale c1 vy))
               (fvec4_add (fvec4_scale c2 vz) (fvec4_scale c3 vw))"

record LabelTransform =
  m_modelPosition :: fvec2
  m_alpha :: fval
  m_rotation :: fval

record Label =
  m_transform :: LabelTransform
  m_text :: string
  m_id :: int

text \<open>
  \<^verbatim>\<open>Label::updateTransform\<close>. Its result is the label with the new transform and the
  arguments of the call \<^verbatim>\<open>m_buffer->transformID(m_id, x, y, rotation, alpha)\<close>, which it
  makes for every input.
\<close>

definition updateTransform ::
    "LabelTransform \<Rightarrow> fmat4 \<Rightarrow> fvec2 \<Rightarrow> Label \<Rightarrow> Label \<times> int \<times> fval \<times> fval \<times> fval \<times> fval" where
  "updateTransform transform mvp screenSize l =
     (let l1 = l\<lparr>m_transform := transform\<rparr>;
          halfWidth = fmul (fst screenSize) (Num 0.5);
          halfHeight = fmul (snd screenSize) (Num 0.5);
          alpha = m_alpha (m_transform l1);
          (px, py, pz, pw) =
             fmat4_mul_vec4 mvp
               (fst (m_modelPosition (m_transform l1)), snd (m_modelPosition (m_transform l1)),
                Num 0, Num 1);
          sx0 = fdiv px pw;
          sy0 = fdiv py pw;
          sx = fmul (fadd sx0 (Num 1)) halfWidth;
          sy = fmul (fsub (Num 1) sy0) halfHeight;
          alpha1 = (if fgt sx (fst screenSize) \<or> flt sx (Num 0) then Num 0 else alpha);
          alpha2 = (if fgt sy (snd screenSize) \<or> flt sy (Num 0) then Num 0 else alpha1)
      in (l1, m_id l1, sx, sy, m_rotation (m_transform l1), alpha2))"

section \<open>Concrete inputs\<close>

text \<open>
  The statements about \<^verbatim>\<open>View\<close> below hold for every look-at and perspective function.
  A closed statement needs a concrete pair: the right-handed matrices of the matrix
  library, with angles in radians. The tile computation never reads them.
\<close>

fun vec3_sub :: "vec3 \<Rightarrow> vec3 \<Rightarrow> vec3" where
  "vec3_sub (a, b, c) (a', b', c') = (a - a', b - b', c - c')"

fun vec3_dot :: "vec3 \<Rightarrow> vec3 \<Rightarrow> real" where
  "vec3_dot (a, b, c) (a', b', c') = a * a' + b * b' + c * c'"

fun vec3_cross :: "vec3 \<Rightarrow> vec3 \<Rightarrow> vec3" where
  "vec3_cross (a, b, c) (a', b', c') = (b * c' - b' * c, c * a' - c' * a, a * b' - a' * b)"

fun vec3_normalize :: "vec3 \<Rightarrow> vec3" where
  "vec3_normalize (a, b, c) =
     (a / sqrt (a * a + b * b + c * c), b / sqrt (a * a + b * b + c * c),
      c / sqrt (a * a + b * b + c * c))"

definition glm_lookAt :: "vec3 \<Rightarrow> vec3 \<Rightarrow> vec3 \<Rightarrow> mat4" where
  "glm_lookAt eye center up =
     (let f = vec3_normalize (vec3_sub center eye);
          s = vec3_normalize (vec3_cross f up);
          u = vec3_cross s f
      in ((fst s, fst u, - fst f, 0),
          (fst (snd s), fst (snd u), - fst (snd f), 0),
          (snd (snd s), snd (snd u), - snd (snd f), 0),
          (- vec3_dot s eye, - vec3_dot u eye, vec3_dot f eye, 1)))"

definition glm_perspective :: "real \<Rightarrow> real \<Rightarrow> real \<Rightarrow> real \<Rightarrow> mat4" where
  "glm_perspective fovy aspect zNear zFar =
     (let tanHalfFovy = tan (fovy / 2)
      in ((1 / (aspect * tanHalfFovy), 0, 0, 0),
          (0, 1 / tanHalfFovy, 0, 0),
          (0, 0, - (zFar + zNear) / (zFar - zNear), - 1),
          (0, 0, - (2 * zFar * zNear) / (zFar - zNear), 0)))"

definition mat4_identity :: mat4 where
  "mat4_identity = ((1, 0, 0, 0), (0, 1, 0, 0), (0, 0, 1, 0), (0, 0, 0, 1))"

text \<open>
  The half circumference of the spherical mercator world in metres, \<open>\<pi>\<close> times the
  radius 6378137, as a \<^verbatim>\<open>double\<close> holds it.
\<close>

definition earth_half_circumference :: real where
  "earth_half_circumference = 20037508.342789244"

text \<open>
  A state as the member initialisers leave it before the constructor body runs: pixel
  scale 1, 256 pixels per tile, everything else zero or empty.
\<close>

definition initial_members :: View where
  "initial_members =
     \<lparr>m_projection = None, m_vpWidth = 0, m_vpHeight = 0, m_aspect = 0,
      m_pixelScale = 1, m_pixelsPerTile = 256,
      m_pos_x = 0, m_pos_y = 0, m_pos_z = 0, m_zoom = 0, m_roll = 0, m_isZoomIn = False,
      m_width = 0, m_height = 0,
      m_view = mat4_identity, m_proj = mat4_identity, m_viewProj = mat4_identity,
      m_visibleTiles = {}, m_dirty = False, m_changed = False\<rparr>"

text \<open>
  The view of the desktop application (\<^verbatim>\<open>osx/src/main.cpp\<close> opens a window of 800 by
  600 pixels), with maximal zoom 18 and initial zoom 16.
\<close>

definition window_view :: View where
  "window_view = fst (View_ctor 18 16 initial_members 800 600 mercator)"

definition fmat4_identity :: fmat4 where
  "fmat4_identity =
     ((Num 1, Num 0, Num 0, Num 0), (Num 0, Num 1, Num 0, Num 0),
      (Num 0, Num 0, Num 1, Num 0), (Num 0, Num 0, Num 0, Num 1))"

definition fmat4_zero :: fmat4 where
  "fmat4_zero =
     ((Num 0, Num 0, Num 0, Num 0), (Num 0, Num 0, Num 0, Num 0),
      (Num 0, Num 0, Num 0, Num 0), (Num 0, Num 0, Num 0, Num 0))"

definition label_example :: Label where
  "label_example =
     \<lparr>m_transform = \<lparr>m_modelPosition = (Num 0, Num 0), m_alpha = Num 0, m_rotation = Num 0\<rparr>,
      m_text = ''label'', m_id = 7\<rparr>"

text \<open>A label anchor that lands on the right and top edges of the screen, and one beyond it.\<close>

definition label_on_edge :: LabelTransform where
  "label_on_edge = \<lparr>m_modelPosition = (Num 1, Num 1), m_alpha = Num 1, m_rotation = Num 0\<rparr>"

definition label_off_screen :: LabelTransform where
  "label_off_screen = \<lparr>m_modelPosition = (Num 3, Num 0), m_alpha = Num 1, m_rotation = Num 0\<rparr>"

section \<open>Derived state and further inputs\<close>

text \<open>
  The state that only \<^verbatim>\<open>View::update\<close> computes: the three matrices, the camera
  distance, the extents in world space and the visible tiles.
\<close>

definition derived_state ::
    "View \<Rightarrow> mat4 \<times> mat4 \<times> mat4 \<times> real \<times> real \<times> real \<times> TileID set" where
  "derived_state v =
     (m_view v, m_proj v, m_viewProj v, m_pos_z v, m_width v, m_height v, m_visibleTiles v)"

text \<open>The states whose tiles are computed below.\<close>

definition north_edge_view :: View where
  "north_edge_view = setPosition 0 earth_half_circumference (setZoom 18 1 window_view)"


section \<open>The stored zoom and roll\<close>


text \<open>
  The clamp of \<^verbatim>\<open>setZoom\<close> compares and selects, it does not compute: the stored zoom
  lies between 0 and the maximal zoom, and is the requested value when that is in range.
\<close>

lemma setZoom_in_range:
  assumes "0 \<le> s_maxZoom"
  shows "0 \<le> m_zoom (setZoom s_maxZoom zv v) \<and> m_zoom (setZoom s_maxZoom zv v) \<le> s_maxZoom
       \<and> (0 \<le> zv \<and> zv \<le> s_maxZoom \<longrightarrow> m_zoom (setZoom s_maxZoom zv v) = zv)"
  using assms by (auto simp: setZoom_def glm_clamp_def)

text \<open>The value of \<open>f32\<close> once the binade of its argument is known.\<close>

lemma f32_binade:
  assumes "2 powr real_of_int k \<le> \<bar>r\<bar>" "\<bar>r\<bar> < 2 powr (real_of_int k + 1)"
  shows "f32 r = real_of_int (rne (r / 2 powr real_of_int (k - 23))) * 2 powr real_of_int (k - 23)"
proof -
  have "(0::real) < 2 powr real_of_int k" by simp
  then have p: "0 < \<bar>r\<bar>" using assms(1) by (rule less_le_trans)
  then have r: "r \<noteq> 0" by auto
  have "\<lfloor>log 2 \<bar>r\<bar>\<rfloor> = k"
    using assms p by (simp add: floor_log_eq_powr_iff)
  with r show ?thesis by (simp add: f32_def Let_def)
qed

lemma f32_1e9: "f32 1000000000 = 1000000000"
  using f32_binade [of 29 "1000000000"]
  by (simp add: rne_def Let_def)

lemma f32_quotient_1e9: "f32 (1000000000 / TWO_PI_f32) = 159154944"
  using f32_binade [of 27 "1000000000 / TWO_PI_f32"]
  by (simp add: TWO_PI_f32_def rne_def Let_def)

lemma f32_product_1e9: "f32 (TWO_PI_f32 * 159154944) = 1000000064"
  using f32_binade [of 29 "TWO_PI_f32 * 159154944"]
  by (simp add: TWO_PI_f32_def rne_def Let_def)

lemma f32_minus_64: "f32 (- 64) = - 64"
  using f32_binade [of 6 "- 64"]
  by (simp add: rne_def Let_def powr_minus)

lemma f32_five_turns: "f32 (16470993 / 524288) = 16470993 / 524288"
  using f32_binade [of 4 "16470993 / 524288"]
  by (simp add: rne_def Let_def powr_minus)

lemma f32_quotient_five_turns: "f32 (16470993 / 524288 / TWO_PI_f32) = 5"
  using f32_binade [of 2 "16470993 / 524288 / TWO_PI_f32"]
  by (simp add: TWO_PI_f32_def rne_def Let_def powr_minus)

lemma f32_product_five_turns: "f32 (TWO_PI_f32 * 5) = 8235497 / 262144"
  using f32_binade [of 4 "TWO_PI_f32 * 5"]
  by (simp add: TWO_PI_f32_def rne_def Let_def powr_minus)

lemma f32_minus_ulp: "f32 (- 1 / 524288) = - 1 / 524288"
  using f32_binade [of "- 19" "- 1 / 524288"]
  by (simp add: rne_def Let_def powr_minus)

text \<open>
  C6. The requested roll 1000000000 is a binary32 value. \<^verbatim>\<open>setRoll\<close> computes
  \<^verbatim>\<open>glm::mod\<close> in binary32: the quotient rounds to 159154944, its product with
  \<^verbatim>\<open>(float)TWO_PI\<close> rounds to 1000000064, and the roll stored is \<open>-64\<close>. The requested
  roll 31.415926, five turns, is the binary32 value 16470993 / 524288: the quotient rounds
  up to 5, and the roll stored is \<open>-1 / 524288\<close>. Both are negative.
\<close>

theorem setRoll_stores_negative_roll:
  "f32 1000000000 = 1000000000
   \<and> m_roll (setRoll_f32 1000000000 window_view) = - 64
   \<and> f32 (16470993 / 524288) = 16470993 / 524288
   \<and> m_roll (setRoll_f32 (16470993 / 524288) window_view) = - 1 / 524288"
proof -
  have a1: "real_of_int \<lfloor>f32 (1000000000 / TWO_PI_f32)\<rfloor> = 159154944"
    unfolding f32_quotient_1e9 by simp
  have b1: "1000000000 - f32 (TWO_PI_f32 * 159154944) = - 64"
    unfolding f32_product_1e9 by simp
  have r1: "glm_mod_f32 1000000000 TWO_PI_f32 = - 64"
    unfolding glm_mod_f32_def a1 b1 by (rule f32_minus_64)
  have a2: "real_of_int \<lfloor>f32 (16470993 / 524288 / TWO_PI_f32)\<rfloor> = 5"
    unfolding f32_quotient_five_turns by simp
  have b2: "16470993 / 524288 - f32 (TWO_PI_f32 * 5) = - 1 / 524288"
    unfolding f32_product_five_turns by simp
  have r2: "glm_mod_f32 (16470993 / 524288) TWO_PI_f32 = - 1 / 524288"
    unfolding glm_mod_f32_def a2 b2 by (rule f32_minus_ulp)
  show ?thesis
    by (simp add: setRoll_f32_def r1 r2 f32_1e9 f32_five_turns)
qed

section \<open>The zoom direction\<close>

text \<open>
  C10. \<^verbatim>\<open>zoom\<close> records that the view zooms in exactly when the step is strictly
  positive; a step of zero records zooming out.
\<close>

theorem zoom_records_direction:
  "m_isZoomIn (zoom s_maxZoom dz v) = (dz > 0) \<and> \<not> m_isZoomIn (zoom s_maxZoom 0 v)"
  by (simp add: zoom_def setZoom_def Let_def)

section \<open>Mutators leave the derived state alone\<close>

text \<open>
  C7. Each of the nine mutators changes its own fields (with the aspect ratio for the
  size and the direction hint for \<^verbatim>\<open>zoom\<close>) and sets the dirty flag, nothing else; in
  particular the matrices, the camera distance, the extents in world space and the
  visible tiles are what they were.
\<close>

theorem mutators_frame:
  "fst (setMapProjection projType v) = v\<lparr>m_projection := Some MercatorProjection, m_dirty := True\<rparr>
   \<and> setPixelScale s v = v\<lparr>m_pixelScale := s, m_dirty := True\<rparr>
   \<and> setSize w h v = v\<lparr>m_vpWidth := w, m_vpHeight := h,
                        m_aspect := real_of_int w / real_of_int h, m_dirty := True\<rparr>
   \<and> setPosition px py v = v\<lparr>m_pos_x := px, m_pos_y := py, m_dirty := True\<rparr>
   \<and> setZoom s_maxZoom zv v = v\<lparr>m_zoom := glm_clamp zv 0 s_maxZoom, m_dirty := True\<rparr>
   \<and> setRoll rv v = v\<lparr>m_roll := glm_mod rv TWO_PI, m_dirty := True\<rparr>
   \<and> translate dx dy v = v\<lparr>m_pos_x := m_pos_x v + dx, m_pos_y := m_pos_y v + dy, m_dirty := True\<rparr>
   \<and> zoom s_maxZoom dz v = v\<lparr>m_isZoomIn := (dz > 0),
                              m_zoom := glm_clamp (m_zoom v + dz) 0 s_maxZoom, m_dirty := True\<rparr>
   \<and> roll droll v = v\<lparr>m_roll := glm_mod (m_roll v + droll) TWO_PI, m_dirty := True\<rparr>
   \<and> derived_state (fst (setMapProjection projType v)) = derived_state v
   \<and> derived_state (setPixelScale s v) = derived_state v
   \<and> derived_state (setSize w h v) = derived_state v
   \<and> derived_state (setPosition px py v) = derived_state v
   \<and> derived_state (setZoom s_maxZoom zv v) = derived_state v
   \<and> derived_state (setRoll rv v) = derived_state v
   \<and> derived_state (translate dx dy v) = derived_state v
   \<and> derived_state (zoom s_maxZoom dz v) = derived_state v
   \<and> derived_state (roll droll v) = derived_state v
   \<and> getBoundsRect (setZoom s_maxZoom zv v) = getBoundsRect v
   \<and> getBoundsRect (setSize w h v) = getBoundsRect v"
  by (simp add: setMapProjection_def setPixelScale_def setSize_def setPosition_def setZoom_def
      setRoll_def translate_def zoom_def roll_def derived_state_def getBoundsRect_def Let_def
      split: ProjectionType.split)

section \<open>An unknown projection\<close>

text \<open>
  C8. For every selector, \<^verbatim>\<open>setMapProjection\<close> and the constructor return a view whose
  projection is the mercator one and which is dirty; for every selector other than
  \<^verbatim>\<open>mercator\<close> exactly one message, the diagnostic, is logged.
\<close>

theorem setMapProjection_fallback:
  "m_projection (fst (setMapProjection projType v)) = Some MercatorProjection
   \<and> m_dirty (fst (setMapProjection projType v))
   \<and> snd (setMapProjection projType v) =
        (if projType = mercator then [] else [projection_error_msg])
   \<and> m_projection (fst (View_ctor s_maxZoom m_initZoom v0 w h projType)) = Some MercatorProjection
   \<and> m_dirty (fst (View_ctor s_maxZoom m_initZoom v0 w h projType))
   \<and> snd (View_ctor s_maxZoom m_initZoom v0 w h projType) =
        (if projType = mercator then [] else [projection_error_msg])"
  by (cases projType)
     (simp_all add: setMapProjection_def View_ctor_def setSize_def setZoom_def setPosition_def
        Let_def)

section \<open>Updating twice\<close>

text \<open>
  C3. A second \<^verbatim>\<open>update\<close> right after a first one changes nothing but the flag
  \<^verbatim>\<open>m_changed\<close>, which it clears; the first one, on a dirty view, recomputes the
  matrices and then the tiles, clears the dirty flag and sets \<^verbatim>\<open>m_changed\<close>.
\<close>

theorem update_twice:
  "update hc la pe (update hc la pe v) = (update hc la pe v)\<lparr>m_changed := False\<rparr>
   \<and> \<not> m_changed (update hc la pe (update hc la pe v))
   \<and> (m_dirty v \<longrightarrow>
        update hc la pe v =
          (updateTiles hc (updateMatrices hc la pe v))\<lparr>m_dirty := False, m_changed := True\<rparr>
        \<and> m_changed (update hc la pe v) \<and> \<not> m_dirty (update hc la pe v))"
  by (simp add: update_def)

theorem update_twice_witness:
  "m_dirty window_view
   \<and> m_changed (update earth_half_circumference glm_lookAt glm_perspective window_view)
   \<and> \<not> m_dirty (update earth_half_circumference glm_lookAt glm_perspective window_view)
   \<and> \<not> m_changed (update earth_half_circumference glm_lookAt glm_perspective
          (update earth_half_circumference glm_lookAt glm_perspective window_view))"
proof -
  have d: "m_dirty window_view"
    by (simp add: window_view_def View_ctor_def setMapProjection_def Let_def)
  show ?thesis
    using d update_twice [of earth_half_circumference glm_lookAt glm_perspective window_view]
    by blast
qed

section \<open>The derivation of the matrices\<close>

text \<open>
  C5. \<^verbatim>\<open>updateMatrices\<close> stores the height of the view in world space, the screen
  height times the tile size over pixels per tile times pixel scale, and the width, that
  height times the aspect ratio; the field of view is a quarter turn, divided by the
  aspect ratio exactly when the width exceeds the height; the camera distance is half the
  height over the tangent of half the field of view; the perspective matrix is built from
  that field of view, the aspect ratio, a fiftieth of the distance and the distance plus
  one.
\<close>

theorem updateMatrices_derivation:
  "let v' = updateMatrices hc la pe v;
       tileSize = 2 * hc * 2 powr (- m_zoom v);
       worldHeight = real_of_int (m_vpHeight v) * tileSize / (m_pixelsPerTile v * m_pixelScale v);
       worldWidth = worldHeight * m_aspect v;
       fovy = (if worldWidth > worldHeight then (pi / 2) / m_aspect v else pi / 2);
       zc = worldHeight / 2 / tan (fovy / 2)
   in m_height v' = worldHeight \<and> m_width v' = worldWidth \<and> m_pos_z v' = zc
      \<and> m_proj v' = pe fovy (m_aspect v) (zc / 50) (zc + 1)"
  by (simp add: updateMatrices_def Let_def)

section \<open>The tile walk\<close>


lemmas view_defs = updateMatrices_def updateTiles_def setPosition_def setZoom_def
  window_view_def View_ctor_def setMapProjection_def setSize_def initial_members_def
  earth_half_circumference_def Let_def glm_clamp_def to_int_def

lemma north_edge_tiles:
  "m_visibleTiles (update earth_half_circumference glm_lookAt glm_perspective north_edge_view) =
     {TileID 1 1 1, TileID 1 0 1, TileID 1 (- 1) 1, TileID 0 1 1, TileID 0 0 1}"
  by (simp add: update_def north_edge_view_def view_defs powr_minus
        outer_loop.simps inner_loop.simps)

text \<open>
  C1. The window of 800 by 600 pixels at zoom 1, with the camera on the northern edge of
  the map: \<^verbatim>\<open>update\<close> puts the tile \<open>(1, -1, 1)\<close> into the visible set, whose row
  is negative.
\<close>

theorem tile_with_negative_row:
  "TileID 1 (- 1) 1
     \<in> m_visibleTiles (update earth_half_circumference glm_lookAt glm_perspective north_edge_view)"
  by (simp add: north_edge_tiles)

text \<open>
  C2. In the same state the first column of the walk starts at row 0, the starting row
  \<open>max(0, floor(bottomEdge / tileSize))\<close>, and the second column starts at row \<open>-1\<close>.
\<close>

theorem columns_start_at_different_rows:
  "TileID 0 0 1
     \<in> m_visibleTiles (update earth_half_circumference glm_lookAt glm_perspective north_edge_view)
   \<and> TileID 0 (- 1) 1
     \<notin> m_visibleTiles (update earth_half_circumference glm_lookAt glm_perspective north_edge_view)
   \<and> TileID 1 (- 1) 1
     \<in> m_visibleTiles (update earth_half_circumference glm_lookAt glm_perspective north_edge_view)"
  by (simp add: north_edge_tiles)

section \<open>Rolling the view\<close>















text \<open>With the identity for rounding the loops are those of the exact reading.\<close>

lemma inner_loop_fp_exact:
  "inner_loop_fp (\<lambda>r. r) ts tp mx zm tileX (y, tileY, tiles) =
   inner_loop ts tp mx zm tileX (y, tileY, tiles)"
proof (induction ts tp mx zm tileX "(y, tileY, tiles)" arbitrary: y tileY tiles
       rule: inner_loop.induct)
  case (1 tileSize vpTopEdge maxTileIndex zm tileX y tileY tiles)
  show ?case
  proof (cases "y < vpTopEdge \<and> tileY < maxTileIndex")
    case True
    from "1.hyps"[OF True] True show ?thesis
      by (subst inner_loop_fp.simps, subst inner_loop.simps) simp
  next
    case False
    then show ?thesis by (subst inner_loop_fp.simps, subst inner_loop.simps) auto
  qed
qed

lemma outer_loop_fp_exact:
  "outer_loop_fp (\<lambda>r. r) ts iv rt tp bt mx zm (x, tileX, y, tileY, tiles) =
   outer_loop ts iv rt tp bt mx zm (x, tileX, y, tileY, tiles)"
proof (induction ts iv rt tp bt mx zm "(x, tileX, y, tileY, tiles)"
       arbitrary: x tileX y tileY tiles rule: outer_loop.induct)
  case (1 tileSize invTileSize vpRightEdge vpTopEdge vpBottomEdge maxTileIndex zm
          x tileX y tileY tiles)
  show ?case
  proof (cases "x < vpRightEdge \<and> tileX < maxTileIndex")
    case True
    obtain y1 tileY1 tiles1 where il:
      "inner_loop tileSize vpTopEdge maxTileIndex zm tileX (y, tileY, tiles) = (y1, tileY1, tiles1)"
      by (cases "inner_loop tileSize vpTopEdge maxTileIndex zm tileX (y, tileY, tiles)") auto
    from "1.hyps"[OF True il[symmetric] refl refl refl refl] True il
    show ?thesis
      by (subst outer_loop_fp.simps, subst outer_loop.simps)
         (simp add: Let_def inner_loop_fp_exact reset_row_def)
  next
    case False
    then show ?thesis by (subst outer_loop_fp.simps, subst outer_loop.simps) auto
  qed
qed

text \<open>
  With the identity for rounding, the walk from the locals of the exact reading gives the
  tiles of \<open>updateTiles\<close>.
\<close>

lemma updateTiles_is_walk:
  "m_visibleTiles (updateTiles hc v) =
     (let tileSize = 2 * hc * 2 powr (real_of_int (- to_int (m_zoom v)));
          invTileSize = 1 / tileSize;
          width = \<bar>m_height v * sin (m_roll v)\<bar> + \<bar>m_width v * cos (m_roll v)\<bar>;
          height = \<bar>m_width v * sin (m_roll v)\<bar> + \<bar>m_height v * cos (m_roll v)\<bar>;
          vpLeftEdge = m_pos_x v - width * 0.5 + hc;
          vpBottomEdge = - m_pos_y v - height * 0.5 + hc
      in tile_walk_fp (\<lambda>r. r) tileSize invTileSize (vpLeftEdge + width) (vpBottomEdge + height)
           vpBottomEdge (to_int (2 powr (m_zoom v))) (to_int (m_zoom v))
           (to_int (max 0 (vpLeftEdge * invTileSize)))
           (to_int (max 0 (vpBottomEdge * invTileSize))))"
  unfolding updateTiles_def tile_walk_fp_def Let_def outer_loop_fp_exact by simp


text \<open>
  A walk over tiles of 10 metres with every result rounded to whole metres: four columns
  and three rows where the smaller box has three columns and two rows.
\<close>

lemma walk_example_small:
  "tile_walk_fp (\<lambda>r. real_of_int (round r)) 10 (1 / 10) 25 15 3 4 2 0 0 =
     {TileID 2 1 2, TileID 2 0 2, TileID 1 1 2, TileID 1 0 2, TileID 0 1 2, TileID 0 0 2}"
  by (simp add: tile_walk_fp_def outer_loop_fp.simps inner_loop_fp.simps reset_row_def
        to_int_def round_def)

lemma walk_example_large:
  "tile_walk_fp (\<lambda>r. real_of_int (round r)) 10 (1 / 10) 35 25 (- 2) 4 2 0 0 =
     {TileID 3 2 2, TileID 3 1 2, TileID 3 0 2, TileID 2 2 2, TileID 2 1 2, TileID 2 0 2,
      TileID 1 2 2, TileID 1 1 2, TileID 1 0 2, TileID 0 2 2, TileID 0 1 2, TileID 0 0 2}"
  by (simp add: tile_walk_fp_def outer_loop_fp.simps inner_loop_fp.simps reset_row_def
        to_int_def round_def)


text \<open>
  The first column cannot be left out of the proviso. With tiles of 2.5 metres and every
  result rounded to whole metres, a walk that starts at column 2 finds its left edge at
  5 and, with the right edge at 5.5, takes the column. A walk over a larger box, from
  column 0 to the right edge 5.8, reaches column 2 by two additions, at 6, and stops
  before it.
\<close>

lemma walk_needs_same_start:
  "tile_walk_fp (\<lambda>r. real_of_int (round r)) (5 / 2) (2 / 5) (11 / 2) 1 0 8 0 2 0 = {TileID 2 0 0}
   \<and> tile_walk_fp (\<lambda>r. real_of_int (round r)) (5 / 2) (2 / 5) (29 / 5) 1 0 8 0 0 0
       = {TileID 1 0 0, TileID 0 0 0}"
  by (simp add: tile_walk_fp_def outer_loop_fp.simps inner_loop_fp.simps reset_row_def
        to_int_def round_def)

section \<open>Labels on the screen\<close>

text \<open>
  C9. For every transform, matrix, screen size and label, \<^verbatim>\<open>updateTransform\<close> hands
  the text buffer the anchor multiplied by the matrix, divided by \<open>w\<close> and mapped to the
  screen with the origin at the top left and \<open>y\<close> pointing down; the alpha it hands over
  is 0 when that position lies outside \<open>[0, width] \<times> [0, height]\<close>, and the alpha of the
  transform when it lies inside or on an edge.
\<close>

theorem label_culling:
  "case updateTransform t mvp (w, h) l of
     (l', i, sx, sy, rot, a) \<Rightarrow>
       (case fmat4_mul_vec4 mvp (fst (m_modelPosition t), snd (m_modelPosition t), Num 0, Num 1) of
          (px, py, pz, pw) \<Rightarrow>
            sx = fmul (fadd (fdiv px pw) (Num 1)) (fmul w (Num 0.5)) \<and>
            sy = fmul (fsub (Num 1) (fdiv py pw)) (fmul h (Num 0.5)))
       \<and> (flt sx (Num 0) \<or> fgt sx w \<or> flt sy (Num 0) \<or> fgt sy h \<longrightarrow> a = Num 0)
       \<and> (fle (Num 0) sx \<and> fle sx w \<and> fle (Num 0) sy \<and> fle sy h \<longrightarrow> a = m_alpha t)
       \<and> l' = l\<lparr>m_transform := t\<rparr> \<and> i = m_id l \<and> rot = m_rotation t"
  by (auto simp: updateTransform_def Let_def fle_def fgt_def split: prod.splits)

lemmas fval_defs = fmul_def fdiv_def fsub_def fgt_def fle_def is_inf_def is_zero_def is_neg_def
  fval_of_def signed_zero_def signed_inf_def

lemma label_on_edge_call:
  "updateTransform label_on_edge fmat4_identity (Num 800, Num 600) label_example =
     (label_example\<lparr>m_transform := label_on_edge\<rparr>, 7, Num 800, Num 0, Num 0, Num 1)"
  by (simp add: updateTransform_def label_on_edge_def fmat4_identity_def label_example_def
        Let_def fval_defs)

lemma label_off_screen_call:
  "updateTransform label_off_screen fmat4_identity (Num 800, Num 600) label_example =
     (label_example\<lparr>m_transform := label_off_screen\<rparr>, 7, Num 1600, Num 300, Num 0, Num 0)"
  by (simp add: updateTransform_def label_off_screen_def fmat4_identity_def label_example_def
        Let_def fval_defs)

text \<open>
  With a matrix of zeros \<open>w\<close> is zero: the position handed over is NaN, and the alpha is
  kept, since every comparison with NaN is false.
\<close>

lemma label_zero_w_call:
  "updateTransform label_on_edge fmat4_zero (Num 800, Num 600) label_example =
     (label_example\<lparr>m_transform := label_on_edge\<rparr>, 7, NaN, NaN, Num 0, Num 1)"
  by (simp add: updateTransform_def label_on_edge_def fmat4_zero_def label_example_def
        Let_def fval_defs)

theorem label_culling_witness:
  "fle (Num 0) (Num 800) \<and> fle (Num 800) (Num 800) \<and> fle (Num 0) (Num 0) \<and> fle (Num 0) (Num 600)
   \<and> snd (snd (snd (snd (snd
        (updateTransform label_on_edge fmat4_identity (Num 800, Num 600) label_example)))))
       = m_alpha label_on_edge
   \<and> fgt (Num 1600) (Num 800)
   \<and> snd (snd (snd (snd (snd
        (updateTransform label_off_screen fmat4_identity (Num 800, Num 600) label_example)))))
       = Num 0"
proof -
  have a: "fle (Num 0) (Num 800) \<and> fle (Num 800) (Num 800) \<and> fle (Num 0) (Num 0)
           \<and> fle (Num 0) (Num 600)"
    by (simp add: fle_def fval_of_def)
  have b: "fgt (Num 1600) (Num 800)" by (simp add: fgt_def fval_of_def)
  have c: "snd (snd (snd (snd (snd
        (updateTransform label_on_edge fmat4_identity (Num 800, Num 600) label_example)))))
       = m_alpha label_on_edge"
    using a label_culling [where t = label_on_edge and mvp = fmat4_identity and w = "Num 800"
        and h = "Num 600" and l = label_example]
    by (simp add: label_on_edge_call)
  have d: "snd (snd (snd (snd (snd
        (updateTransform label_off_screen fmat4_identity (Num 800, Num 600) label_example)))))
       = Num 0"
    using b label_culling [where t = label_off_screen and mvp = fmat4_identity and w = "Num 800"
        and h = "Num 600" and l = label_example]
    by (simp add: label_off_screen_call)
  from a b c d show ?thesis by simp
qed

end
